theory Spec2Isabelle
  imports Main "HOL-Library.Multiset" "HOL-Library.Char_ord" "HOL-Library.List_Lexorder"
begin

section \<open>Project names and data frames\<close>

text \<open>
  The script keeps every table in a pandas data frame with the single column
  \<^verbatim>\<open>project_names\<close>. A cell of that column is a string or missing (Python
  \<^verbatim>\<open>None\<close> / \<^verbatim>\<open>NaN\<close>): \<open>string option\<close>. The frame is the list of its cells in row
  order. Strings are byte strings; \<open>strip\<close> and \<open>lower\<close> are Python's \<^verbatim>\<open>str.strip()\<close>
  and \<^verbatim>\<open>str.lower()\<close> on ASCII text (bytes above 127 are left as they are).
\<close>

type_synonym cell = "string option"

type_synonym dataframe = "cell list"

datatype status = Added | Removed

type_synonym diff_frame = "(cell \<times> status) list"

definition is_space :: "char \<Rightarrow> bool" where
  "is_space c = (let n = (of_char c :: nat) in (9 \<le> n \<and> n \<le> 13) \<or> (28 \<le> n \<and> n \<le> 32))"

definition strip :: "string \<Rightarrow> string" where
  "strip s = rev (dropWhile is_space (rev (dropWhile is_space s)))"

definition lower_char :: "char \<Rightarrow> char" where
  "lower_char c = (let n = (of_char c :: nat) in if 65 \<le> n \<and> n \<le> 90 then char_of (n + 32) else c)"

definition lower :: "string \<Rightarrow> string" where
  "lower s = map lower_char s"

text \<open>
  \<^verbatim>\<open>df["project_names"].str.strip().str.lower()\<close>, cell by cell: the string
  accessor maps a missing cell to a missing cell.
\<close>

definition normalise :: "cell \<Rightarrow> cell" where
  "normalise c = map_option (\<lambda>s. lower (strip s)) c"

section \<open>The diff: compare_csvs\<close>

definition compare_csvs :: "dataframe \<Rightarrow> dataframe \<Rightarrow> diff_frame" where
  "compare_csvs new_df old_df =
     (let old_projects_normalized = set (map normalise old_df);
          new_projects_normalized = set (map normalise new_df);
          added_projects = new_projects_normalized - old_projects_normalized;
          removed_projects = old_projects_normalized - new_projects_normalized;
          added_df = filter (\<lambda>c. normalise c \<in> added_projects) new_df;
          removed_df = filter (\<lambda>c. normalise c \<in> removed_projects) old_df
      in map (\<lambda>c. (c, Added)) added_df @ map (\<lambda>c. (c, Removed)) removed_df)"

text \<open>The names the diff reports under one status label, in row order.\<close>

definition names_with :: "status \<Rightarrow> diff_frame \<Rightarrow> cell list" where
  "names_with st d = map fst (filter (\<lambda>r. snd r = st) d)"

definition added_keys :: "diff_frame \<Rightarrow> cell set" where
  "added_keys d = set (map normalise (names_with Added d))"

definition removed_keys :: "diff_frame \<Rightarrow> cell set" where
  "removed_keys d = set (map normalise (names_with Removed d))"

section \<open>Snapshot files\<close>

text \<open>
  A snapshot is a CSV file with the one column \<^verbatim>\<open>project_names\<close>. The file is the
  list of its lines, the header line first; a line holds one field, written bare or
  between double quotes (the quotes, and the doubling of a quote inside them, belong to
  the CSV layer: \<open>Quoted s\<close> is the line whose field reads back as \<open>s\<close>). The file
  system maps the path of a regular file to its content.
\<close>

datatype csv_line = Plain string | Quoted string

type_synonym csv_file = "csv_line list"

type_synonym path = string

type_synonym filesystem = "path \<rightharpoonup> csv_file"

datatype error = OperationalError | EmptyDataError | ValueError | OSError

primrec field_text :: "csv_line \<Rightarrow> string" where
  "field_text (Plain s) = s"
| "field_text (Quoted s) = s"

text \<open>
  \<^verbatim>\<open>pd.read_csv(filepath, usecols=["project_names"], dtype=str)\<close> with the defaults
  of pandas: \<^verbatim>\<open>skip_blank_lines=True\<close> passes over a line that is empty or holds
  only spaces and tabs (a quoted field is never such a line); the first line left is
  the header, and \<^verbatim>\<open>usecols\<close> raises \<^verbatim>\<open>ValueError\<close> when it does not name the
  column; a file with no line left raises \<^verbatim>\<open>EmptyDataError\<close>; and, \<^verbatim>\<open>dtype=str\<close>
  notwithstanding, a field whose text is one of the default missing-value markers is
  read as missing.
\<close>

definition blank_char :: "char \<Rightarrow> bool" where
  "blank_char c = (c = CHR 0x20 \<or> c = CHR 0x09)"

primrec blank_line :: "csv_line \<Rightarrow> bool" where
  "blank_line (Plain s) = list_all blank_char s"
| "blank_line (Quoted s) = False"

definition na_values :: "string list" where
  "na_values =
     ['''', ''#N/A'', ''#N/A N/A'', ''#NA'', ''-1.#IND'', ''-1.#QNAN'', ''-NaN'', ''-nan'',
      ''1.#IND'', ''1.#QNAN'', ''<NA>'', ''N/A'', ''NA'', ''NULL'', ''NaN'', ''None'', ''n/a'',
      ''nan'', ''null'']"

definition na_filter :: "string \<Rightarrow> cell" where
  "na_filter s = (if s \<in> set na_values then None else Some s)"

definition read_csv :: "csv_file \<Rightarrow> error + dataframe" where
  "read_csv f =
     (case filter (\<lambda>l. \<not> blank_line l) f of
        [] \<Rightarrow> Inl EmptyDataError
      | h # rows \<Rightarrow>
          if field_text h = ''project_names''
          then Inr (map (\<lambda>l. na_filter (field_text l)) rows)
          else Inl ValueError)"

definition dropna :: "dataframe \<Rightarrow> dataframe" where
  "dropna df = filter (\<lambda>c. c \<noteq> None) df"

definition load_csv :: "filesystem \<Rightarrow> path \<Rightarrow> error + dataframe" where
  "load_csv fs filepath =
     (case fs filepath of
        Some f \<Rightarrow> (case read_csv f of Inl e \<Rightarrow> Inl e | Inr df \<Rightarrow> Inr (dropna df))
      | None \<Rightarrow> Inr [])"

text \<open>
  \<^verbatim>\<open>new_data.sort_values(by="project_names", inplace=True)\<close>: ascending in Python's
  string order (code points, so upper case before lower case), missing cells last.
\<close>

definition sort_values :: "dataframe \<Rightarrow> dataframe" where
  "sort_values df =
     map Some (sort (map the (filter (\<lambda>c. c \<noteq> None) df))) @ filter (\<lambda>c. c = None) df"

text \<open>
  \<^verbatim>\<open>new_data.to_csv(today_file, index=False)\<close>: the header line, then one line for
  each row; a missing cell is written as the empty string; the writer quotes a field
  that is empty or holds a comma, a double quote, a carriage return or a line feed.
\<close>

definition needs_quote :: "string \<Rightarrow> bool" where
  "needs_quote s =
     (s = [] \<or> list_ex (\<lambda>c. c = CHR 0x2C \<or> c = CHR 0x22 \<or> c = CHR 0x0D \<or> c = CHR 0x0A) s)"

definition write_field :: "string \<Rightarrow> csv_line" where
  "write_field s = (if needs_quote s then Quoted s else Plain s)"

definition to_csv :: "dataframe \<Rightarrow> csv_file" where
  "to_csv df =
     Plain ''project_names'' # map (\<lambda>c. write_field (case c of None \<Rightarrow> [] | Some s \<Rightarrow> s)) df"

section \<open>Configuration\<close>

text \<open>
  The environment variables are a map from names to values. \<open>split_on\<close> is
  \<^verbatim>\<open>str.split(",")\<close>, which always returns at least one piece.
\<close>

fun split_on :: "char \<Rightarrow> string \<Rightarrow> string list" where
  "split_on d [] = [[]]"
| "split_on d (c # cs) =
     (if c = d then [] # split_on d cs
      else (case split_on d cs of [] \<Rightarrow> [[c]] | x # xs \<Rightarrow> (c # x) # xs))"

definition getenv :: "(string \<rightharpoonup> string) \<Rightarrow> string \<Rightarrow> string \<Rightarrow> string" where
  "getenv environ k dflt = (case environ k of None \<Rightarrow> dflt | Some v \<Rightarrow> v)"

definition EMAIL_SENDER :: "(string \<rightharpoonup> string) \<Rightarrow> string" where
  "EMAIL_SENDER environ = strip (getenv environ ''EMAIL_SENDER'' [])"

definition EMAIL_RECEIVER :: "(string \<rightharpoonup> string) \<Rightarrow> string list" where
  "EMAIL_RECEIVER environ =
     map strip (filter (\<lambda>email. strip email \<noteq> [])
       (split_on (CHR 0x2C) (getenv environ ''EMAIL_RECEIVER'' [])))"

definition CSV_DIR :: path where
  "CSV_DIR = ''L:'' @ [CHR 0x5C] @ ''Sample Inventory Department'' @ [CHR 0x5C] @ ''FreezerPro Projects''"

definition snapshot_file :: "string \<Rightarrow> path" where
  "snapshot_file date = CSV_DIR @ [CHR 0x5C] @ ''project_names_'' @ date @ ''.csv''"

section \<open>The notification\<close>

record email =
  mail_from :: string
  mail_to :: string
  rcpt :: "string list"
  subject :: string
  body :: string

text \<open>
  What the run leaves behind: the files, the messages for which \<open>send_email\<close> opened an
  SMTP session, and those the server took.
\<close>

record world =
  files :: filesystem
  smtp_sessions :: "email list"
  delivered :: "email list"

function show_nat :: "nat \<Rightarrow> string" where
  "show_nat n = (if n < 10 then [char_of (48 + n)] else show_nat (n div 10) @ [char_of (48 + n mod 10)])"
  by pat_completeness auto
termination
  by (relation "measure (\<lambda>n. n)") auto

fun join :: "string \<Rightarrow> string list \<Rightarrow> string" where
  "join sep [] = []"
| "join sep [x] = x"
| "join sep (x # y # ys) = x @ sep @ join sep (y # ys)"

text \<open>
  The body of the message. \<open>to_string\<close> stands for pandas'
  \<^verbatim>\<open>diff_df.to_string(index=False)\<close>, the table as aligned text.
\<close>

definition email_body :: "(diff_frame \<Rightarrow> string) \<Rightarrow> nat \<Rightarrow> diff_frame \<Rightarrow> string" where
  "email_body to_string total_projects diff_df =
     ''Total FP projects today: '' @ show_nat total_projects @ [CHR 0x0A, CHR 0x0A] @
     (if diff_df = [] then ''No changes in FP project names.''
      else ''Changes in FP project names:'' @ [CHR 0x0A] @ to_string diff_df)"

text \<open>
  \<open>send_email\<close> builds the message and opens the session inside \<^verbatim>\<open>try\<close>; any
  exception is printed and swallowed. \<^verbatim>\<open>smtplib\<close>'s \<^verbatim>\<open>sendmail\<close> raises
  \<^verbatim>\<open>SMTPRecipientsRefused\<close> when the list of recipients is empty, so nothing is
  delivered then.
\<close>

definition send_email ::
  "(string \<rightharpoonup> string) \<Rightarrow> string \<Rightarrow> bool \<Rightarrow> (diff_frame \<Rightarrow> string) \<Rightarrow> nat \<Rightarrow> diff_frame \<Rightarrow> world \<Rightarrow> world" where
  "send_email environ today smtp_ok to_string total_projects diff_df w =
     (let msg = \<lparr> mail_from = EMAIL_SENDER environ,
                  mail_to = join '', '' (EMAIL_RECEIVER environ),
                  rcpt = EMAIL_RECEIVER environ,
                  subject = ''Daily FP Project Name Report - '' @ today,
                  body = email_body to_string total_projects diff_df \<rparr>
      in w \<lparr> smtp_sessions := smtp_sessions w @ [msg],
             delivered := (if smtp_ok \<and> EMAIL_RECEIVER environ \<noteq> [] then delivered w @ [msg]
                           else delivered w) \<rparr>)"

section \<open>The run\<close>

text \<open>
  What one run meets: the environment variables, the two dates the clock gives, the
  outcome of the database query, and whether creating the directory, writing the file
  and the SMTP session succeed. A failed write is taken to leave the files as they were.
  The connection settings of the database and of the mail server are not values of the
  model: what they lead to is in \<open>db\<close> and \<open>smtp_ok\<close>. The connection test at the
  head of the script only prints. A run whose \<^verbatim>\<open>SMTP_PORT\<close> is not a number ends
  while the settings are read, before any statement modelled here.
\<close>

record env =
  environ :: "string \<rightharpoonup> string"
  today :: string
  yesterday :: string
  db :: "error + dataframe"
  mkdir_ok :: bool
  to_csv_ok :: bool
  smtp_ok :: bool

text \<open>\<open>fetch_project_names\<close> catches every exception of the query and returns \<^verbatim>\<open>None\<close>.\<close>

definition fetch_project_names :: "env \<Rightarrow> dataframe option" where
  "fetch_project_names e = (case db e of Inl err \<Rightarrow> None | Inr data \<Rightarrow> Some data)"

text \<open>
  The statements at the end of the script, in their order. The result is the world after
  the run and the exception that ended it, if one did: nothing at the top level catches
  an exception of \<open>load_csv\<close>, of \<^verbatim>\<open>mkdir\<close> or of \<^verbatim>\<open>to_csv\<close>.
\<close>

definition run :: "env \<Rightarrow> (diff_frame \<Rightarrow> string) \<Rightarrow> world \<Rightarrow> world \<times> error option" where
  "run e to_string w =
     (let new_data = fetch_project_names e in
      case load_csv (files w) (snapshot_file (yesterday e)) of
        Inl err \<Rightarrow> (w, Some err)
      | Inr old_data \<Rightarrow>
          (case new_data of
             None \<Rightarrow> (w, None)
           | Some new_df \<Rightarrow>
               (let diff_df = compare_csvs new_df old_data in
                if \<not> mkdir_ok e then (w, Some OSError)
                else
                  (let sorted_df = sort_values new_df in
                   if \<not> to_csv_ok e then (w, Some OSError)
                   else
                     (let w1 = w \<lparr> files := (files w)(snapshot_file (today e) \<mapsto> to_csv sorted_df) \<rparr>;
                          total_projects = length sorted_df
                      in (send_email (environ e) (today e) (smtp_ok e) to_string total_projects diff_df w1,
                          None))))))"

text \<open>
  The names that a snapshot file can hold and give back: not one of the missing-value
  markers (the empty string among them) and not made of spaces and tabs only.
\<close>

definition storable :: "string \<Rightarrow> bool" where
  "storable s = (s \<notin> set na_values \<and> \<not> list_all blank_char s)"

section \<open>Properties of the diff\<close>

lemma names_with_Added_compare:
  "names_with Added (compare_csvs new_df old_df) =
     filter (\<lambda>c. normalise c \<notin> set (map normalise old_df)) new_df"
  by (auto simp: names_with_def compare_csvs_def Let_def filter_map comp_def intro: filter_cong)

lemma names_with_Removed_compare:
  "names_with Removed (compare_csvs new_df old_df) =
     filter (\<lambda>c. normalise c \<notin> set (map normalise new_df)) old_df"
  by (auto simp: names_with_def compare_csvs_def Let_def filter_map comp_def intro: filter_cong)

lemma added_keys_compare:
  "added_keys (compare_csvs new_df old_df) = normalise ` set new_df - normalise ` set old_df"
  by (auto simp: added_keys_def names_with_Added_compare)

lemma removed_keys_compare:
  "removed_keys (compare_csvs new_df old_df) = normalise ` set old_df - normalise ` set new_df"
  by (auto simp: removed_keys_def names_with_Removed_compare)

text \<open>
  C1. For all frames A (today) and B (yesterday), the normalised names the diff reports
  as added and those it reports as removed are disjoint, and the normalised names of A
  are the normalised names of B, with the added keys joined and the removed keys taken
  away.
\<close>

theorem compare_csvs_set_identity:
  "added_keys (compare_csvs A B) \<inter> removed_keys (compare_csvs A B) = {} \<and>
   normalise ` set A = (normalise ` set B \<union> added_keys (compare_csvs A B)) - removed_keys (compare_csvs A B)"
  unfolding added_keys_compare removed_keys_compare by blast

section \<open>Properties of the snapshot store\<close>

text \<open>
  C3. For every path at which no file exists, \<open>load_csv\<close> returns the empty frame; it
  does not raise.
\<close>

theorem load_csv_missing_file:
  "fs filepath = None \<Longrightarrow> load_csv fs filepath = Inr []"
  by (simp add: load_csv_def)

theorem load_csv_missing_file_witness:
  "(Map.empty(''a.csv'' \<mapsto> [Plain ''project_names''])) ''b.csv'' = None \<and>
   load_csv (Map.empty(''a.csv'' \<mapsto> [Plain ''project_names''])) ''b.csv'' = Inr []"
  using load_csv_missing_file [of "Map.empty(''a.csv'' \<mapsto> [Plain ''project_names''])" "''b.csv''"]
  by simp

lemma na_filter_Some: "na_filter s = Some t \<Longrightarrow> t = s \<and> s \<notin> set na_values"
  by (simp add: na_filter_def split: if_splits)

lemma empty_is_na: "[] \<in> set na_values"
  by (simp add: na_values_def)

lemma read_csv_no_empty: "read_csv f = Inr df \<Longrightarrow> Some [] \<notin> set df"
proof
  assume r: "read_csv f = Inr df" and m: "Some [] \<in> set df"
  from r obtain rows where "df = map (\<lambda>l. na_filter (field_text l)) rows"
    by (auto simp: read_csv_def split: list.splits if_splits)
  with m obtain l where "na_filter (field_text l) = Some []" by auto
  from na_filter_Some [OF this] empty_is_na show False by metis
qed

text \<open>
  C4, as the claim states it, fails: \<open>load_csv\<close> only drops missing cells
  (\<^verbatim>\<open>dropna\<close>) and never trims. A line whose quoted field is a single space is
  read as the string of one space; it is not missing, so it stays in the frame, and it
  is empty after trimming.
\<close>

theorem load_csv_keeps_blank_entry:
  "load_csv (Map.empty(''p.csv'' \<mapsto> [Plain ''project_names'', Quoted '' ''])) ''p.csv'' = Inr [Some '' '']
   \<and> strip '' '' = []"
  by (simp add: load_csv_def read_csv_def blank_char_def na_filter_def na_values_def dropna_def
      strip_def is_space_def)

lemma read_csv_rows:
  "read_csv f = Inr df \<Longrightarrow>
   df = map (\<lambda>l. na_filter (field_text l)) (tl (filter (\<lambda>l. \<not> blank_line l) f))"
  by (auto simp: read_csv_def split: list.splits if_splits)

lemma dropna_na_filter:
  "dropna (map (\<lambda>l. na_filter (field_text l)) ls) =
   map Some (filter (\<lambda>s. s \<notin> set na_values) (map field_text ls))"
  by (induction ls) (simp_all add: dropna_def na_filter_def)

lemma blank_not_marker: "s \<in> set na_values \<Longrightarrow> strip s = [] \<Longrightarrow> s = []"
  by (auto simp: na_values_def strip_def is_space_def)

text \<open>
  C4, amended. For every snapshot file, \<open>load_csv\<close> returns, in the order of the
  file, exactly the fields of the data lines that are not passed over as blank (a bare
  line that is empty or holds only spaces and tabs) and are not read as missing (the
  empty field and the missing-value markers). So every null entry is dropped, and no
  missing cell and no empty string is in the frame returned. Of the entries that are
  empty only after trimming, the bare lines of spaces and tabs are dropped with the
  blank lines, and every other one (a quoted field of whitespace, say) is kept.
\<close>

theorem load_csv_drops_null:
  "load_csv fs p = Inr df \<Longrightarrow>
   None \<notin> set df \<and> Some [] \<notin> set df \<and>
   (\<forall>f. fs p = Some f \<longrightarrow>
      df = map Some (filter (\<lambda>s. s \<notin> set na_values)
             (map field_text (tl (filter (\<lambda>l. \<not> blank_line l) f)))) \<and>
      (\<forall>l. l \<in> set (tl (filter (\<lambda>l. \<not> blank_line l) f)) \<longrightarrow>
           field_text l \<noteq> [] \<longrightarrow> strip (field_text l) = [] \<longrightarrow> Some (field_text l) \<in> set df))"
proof -
  assume h: "load_csv fs p = Inr df"
  have a: "None \<notin> set df \<and> Some [] \<notin> set df"
    using h by (auto simp: load_csv_def dropna_def split: option.splits sum.splits dest: read_csv_no_empty)
  have b: "df = map Some (filter (\<lambda>s. s \<notin> set na_values)
             (map field_text (tl (filter (\<lambda>l. \<not> blank_line l) f))))" if f: "fs p = Some f" for f
  proof -
    from h f obtain d where r: "read_csv f = Inr d" and d: "df = dropna d"
      by (auto simp: load_csv_def split: sum.splits)
    from read_csv_rows [OF r] d show ?thesis by (simp add: dropna_na_filter)
  qed
  have c: "Some (field_text l) \<in> set df"
    if f: "fs p = Some f" and l: "l \<in> set (tl (filter (\<lambda>l. \<not> blank_line l) f))"
      and n: "field_text l \<noteq> []" and s: "strip (field_text l) = []" for f l
  proof -
    from n s blank_not_marker have "field_text l \<notin> set na_values" by blast
    with l show ?thesis unfolding b [OF f] by force
  qed
  from a b c show ?thesis by blast
qed

theorem load_csv_drops_null_witness:
  "load_csv (Map.empty(''p.csv'' \<mapsto>
      [Plain ''project_names'', Plain ''  '', Quoted [], Plain ''NA'', Quoted '' '', Plain ''Beta''])) ''p.csv''
     = Inr [Some '' '', Some ''Beta''] \<and>
   None \<notin> set [Some '' '', Some ''Beta''] \<and> Some [] \<notin> set [Some '' '', Some ''Beta''] \<and>
   [Some '' '', Some ''Beta''] = map Some (filter (\<lambda>s. s \<notin> set na_values)
      (map field_text (tl (filter (\<lambda>l. \<not> blank_line l)
         [Plain ''project_names'', Plain ''  '', Quoted [], Plain ''NA'', Quoted '' '', Plain ''Beta'']))))"
proof -
  let ?f = "[Plain ''project_names'', Plain ''  '', Quoted [], Plain ''NA'', Quoted '' '', Plain ''Beta'']"
  have l: "load_csv (Map.empty(''p.csv'' \<mapsto> ?f)) ''p.csv'' = Inr [Some '' '', Some ''Beta'']"
    by (simp add: load_csv_def read_csv_def blank_char_def na_filter_def na_values_def dropna_def)
  have e: "[Some '' '', Some ''Beta''] = map Some (filter (\<lambda>s. s \<notin> set na_values)
      (map field_text (tl (filter (\<lambda>l. \<not> blank_line l) ?f))))"
    using load_csv_drops_null [OF l] by simp
  from load_csv_drops_null [OF l]
  have n: "None \<notin> set [Some '' '', Some ''Beta''] \<and> Some [] \<notin> set [Some '' '', Some ''Beta'']"
    by blast
  show ?thesis
    by (rule conjI [OF l conjI [OF conjunct1 [OF n] conjI [OF conjunct2 [OF n] e]]])
qed

section \<open>Representatives in the diff\<close>

text \<open>
  C5, as the claim states it, fails: the diff keeps every row whose key was added, so
  two names of today that share one normalised key are both listed.
\<close>

theorem compare_csvs_two_representatives:
  "compare_csvs [Some ''Alpha'', Some ''alpha''] [] = [(Some ''Alpha'', Added), (Some ''alpha'', Added)]
   \<and> normalise (Some ''Alpha'') = normalise (Some ''alpha'')"
  by code_simp

lemma filter_key_absent:
  "k \<notin> B \<Longrightarrow> filter (\<lambda>c. f c \<notin> B \<and> f c = k) xs = filter (\<lambda>c. f c = k) xs"
  by (induction xs) auto

text \<open>
  C5, amended. For every added key, the rows the diff lists as added under that key are
  all the rows of today's frame with that key, each once and in today's order; the
  output is a function of the two frames.
\<close>

theorem compare_csvs_lists_every_name:
  "k \<in> added_keys (compare_csvs new_df old_df) \<Longrightarrow>
   filter (\<lambda>c. normalise c = k) (names_with Added (compare_csvs new_df old_df))
     = filter (\<lambda>c. normalise c = k) new_df"
  by (simp add: added_keys_compare names_with_Added_compare filter_key_absent)

theorem compare_csvs_lists_every_name_witness:
  "Some ''alpha'' \<in> added_keys (compare_csvs [Some ''Alpha'', Some ''Beta'', Some ''alpha''] [Some ''beta'']) \<and>
   filter (\<lambda>c. normalise c = Some ''alpha'')
     (names_with Added (compare_csvs [Some ''Alpha'', Some ''Beta'', Some ''alpha''] [Some ''beta'']))
     = [Some ''Alpha'', Some ''alpha'']"
proof -
  have k: "Some ''alpha'' \<in> added_keys (compare_csvs [Some ''Alpha'', Some ''Beta'', Some ''alpha''] [Some ''beta''])"
    by code_simp
  have f: "filter (\<lambda>c. normalise c = Some ''alpha'') [Some ''Alpha'', Some ''Beta'', Some ''alpha'']
     = [Some ''Alpha'', Some ''alpha'']"
    by code_simp
  show ?thesis using k compare_csvs_lists_every_name [OF k] f by simp
qed

section \<open>Properties of the run\<close>

text \<open>
  C6. When the database fetch fails, the run writes no snapshot file and sends no
  email: the files, the SMTP sessions and the delivered messages are as before.
\<close>

theorem run_fetch_failure:
  "db e = Inl err \<Longrightarrow>
   files (fst (run e to_string w)) = files w \<and>
   smtp_sessions (fst (run e to_string w)) = smtp_sessions w \<and>
   delivered (fst (run e to_string w)) = delivered w"
  by (simp add: run_def fetch_project_names_def split: sum.splits)

theorem run_fetch_failure_witness:
  "db \<lparr>environ = Map.empty, today = ''2025-03-05'', yesterday = ''2025-03-04'',
       db = Inl OperationalError, mkdir_ok = True, to_csv_ok = True, smtp_ok = True\<rparr>
     = Inl OperationalError \<and>
   files (fst (run \<lparr>environ = Map.empty, today = ''2025-03-05'', yesterday = ''2025-03-04'',
       db = Inl OperationalError, mkdir_ok = True, to_csv_ok = True, smtp_ok = True\<rparr>
       (\<lambda>d. []) \<lparr>files = Map.empty, smtp_sessions = [], delivered = []\<rparr>)) = Map.empty \<and>
   smtp_sessions (fst (run \<lparr>environ = Map.empty, today = ''2025-03-05'', yesterday = ''2025-03-04'',
       db = Inl OperationalError, mkdir_ok = True, to_csv_ok = True, smtp_ok = True\<rparr>
       (\<lambda>d. []) \<lparr>files = Map.empty, smtp_sessions = [], delivered = []\<rparr>)) = []"
  using run_fetch_failure
    [of "\<lparr>environ = Map.empty, today = ''2025-03-05'', yesterday = ''2025-03-04'',
       db = Inl OperationalError, mkdir_ok = True, to_csv_ok = True, smtp_ok = True\<rparr>"
       OperationalError "\<lambda>d. []" "\<lparr>files = Map.empty, smtp_sessions = [], delivered = []\<rparr>"]
  by simp

text \<open>
  C7, as the claim states it, fails: nothing catches the exception of the save step, so
  the script ends there and \<open>send_email\<close> is never reached. Here the fetch succeeds,
  the diff is computed, and the write fails.
\<close>

theorem run_save_failure_sends_nothing:
  "run \<lparr>environ = Map.empty, today = ''2025-03-05'', yesterday = ''2025-03-04'',
       db = Inr [Some ''Alpha''], mkdir_ok = True, to_csv_ok = False, smtp_ok = True\<rparr>
       (\<lambda>d. []) \<lparr>files = Map.empty, smtp_sessions = [], delivered = []\<rparr>
   = (\<lparr>files = Map.empty, smtp_sessions = [], delivered = []\<rparr>, Some OSError)"
  by (simp add: run_def fetch_project_names_def load_csv_def)

text \<open>
  C7, amended. When the fetch and the load of yesterday's snapshot succeed and the save
  step fails (creating the directory or writing the file), the run ends with that
  exception and opens no SMTP session: no email is sent.
\<close>

theorem run_save_failure:
  "db e = Inr rows \<Longrightarrow> load_csv (files w) (snapshot_file (yesterday e)) = Inr old_df \<Longrightarrow>
   \<not> (mkdir_ok e \<and> to_csv_ok e) \<Longrightarrow>
   snd (run e to_string w) = Some OSError \<and>
   smtp_sessions (fst (run e to_string w)) = smtp_sessions w \<and>
   delivered (fst (run e to_string w)) = delivered w"
  by (auto simp add: run_def fetch_project_names_def Let_def)

theorem run_save_failure_witness:
  "snd (run \<lparr>environ = Map.empty, today = ''2025-03-05'', yesterday = ''2025-03-04'',
       db = Inr [Some ''Alpha''], mkdir_ok = False, to_csv_ok = True, smtp_ok = True\<rparr>
       (\<lambda>d. []) \<lparr>files = Map.empty, smtp_sessions = [], delivered = []\<rparr>) = Some OSError \<and>
   smtp_sessions (fst (run \<lparr>environ = Map.empty, today = ''2025-03-05'', yesterday = ''2025-03-04'',
       db = Inr [Some ''Alpha''], mkdir_ok = False, to_csv_ok = True, smtp_ok = True\<rparr>
       (\<lambda>d. []) \<lparr>files = Map.empty, smtp_sessions = [], delivered = []\<rparr>)) = []"
  using run_save_failure
    [of "\<lparr>environ = Map.empty, today = ''2025-03-05'', yesterday = ''2025-03-04'',
       db = Inr [Some ''Alpha''], mkdir_ok = False, to_csv_ok = True, smtp_ok = True\<rparr>"
       "[Some ''Alpha'']" "\<lparr>files = Map.empty, smtp_sessions = [], delivered = []\<rparr>" "[]" "\<lambda>d. []"]
  by (simp add: load_csv_def)

section \<open>The successful run\<close>

lemma send_email_files: "files (send_email ev t ok ts n d w) = files w"
  by (simp add: send_email_def Let_def)

lemma send_email_sessions:
  "map rcpt (smtp_sessions (send_email ev t ok ts n d w)) = map rcpt (smtp_sessions w) @ [EMAIL_RECEIVER ev]"
  "map body (smtp_sessions (send_email ev t ok ts n d w)) = map body (smtp_sessions w) @ [email_body ts n d]"
  by (simp_all add: send_email_def Let_def)

lemma send_email_no_rcpt:
  "EMAIL_RECEIVER ev = [] \<Longrightarrow> delivered (send_email ev t ok ts n d w) = delivered w"
  by (simp add: send_email_def Let_def)

lemma length_sort_values: "length (sort_values df) = length df"
proof -
  have "length (filter (\<lambda>c. c \<noteq> None) df) + length (filter (\<lambda>c. c = None) df) = length df"
    using sum_length_filter_compl [of "\<lambda>c. c \<noteq> None" df] by simp
  then show ?thesis by (simp add: sort_values_def)
qed

lemma run_success:
  assumes "db e = Inr rows" and "load_csv (files w) (snapshot_file (yesterday e)) = Inr old_df"
    and "mkdir_ok e" and "to_csv_ok e"
  shows "run e ts w =
    (send_email (environ e) (today e) (smtp_ok e) ts (length rows) (compare_csvs rows old_df)
       (w \<lparr> files := (files w)(snapshot_file (today e) \<mapsto> to_csv (sort_values rows)) \<rparr>), None)"
  using assms by (simp add: run_def fetch_project_names_def Let_def length_sort_values)

text \<open>
  C8, as the claim states it, fails: the script never checks the list of recipients.
  With \<^verbatim>\<open>EMAIL_RECEIVER\<close> unset the list is empty, and the run still fetches, writes
  today's snapshot and opens an SMTP session for a message with no recipient.
\<close>

theorem run_unset_recipients_still_runs:
  "EMAIL_RECEIVER Map.empty = [] \<and>
   snd (run \<lparr>environ = Map.empty, today = ''2025-03-05'', yesterday = ''2025-03-04'',
       db = Inr [Some ''Alpha''], mkdir_ok = True, to_csv_ok = True, smtp_ok = True\<rparr>
       (\<lambda>d. []) \<lparr>files = Map.empty, smtp_sessions = [], delivered = []\<rparr>) = None \<and>
   files (fst (run \<lparr>environ = Map.empty, today = ''2025-03-05'', yesterday = ''2025-03-04'',
       db = Inr [Some ''Alpha''], mkdir_ok = True, to_csv_ok = True, smtp_ok = True\<rparr>
       (\<lambda>d. []) \<lparr>files = Map.empty, smtp_sessions = [], delivered = []\<rparr>)) (snapshot_file ''2025-03-05'')
     = Some [Plain ''project_names'', Plain ''Alpha''] \<and>
   map rcpt (smtp_sessions (fst (run \<lparr>environ = Map.empty, today = ''2025-03-05'', yesterday = ''2025-03-04'',
       db = Inr [Some ''Alpha''], mkdir_ok = True, to_csv_ok = True, smtp_ok = True\<rparr>
       (\<lambda>d. []) \<lparr>files = Map.empty, smtp_sessions = [], delivered = []\<rparr>))) = [[]]"
proof -
  have r: "EMAIL_RECEIVER Map.empty = []"
    by (simp add: EMAIL_RECEIVER_def getenv_def strip_def)
  have l: "load_csv Map.empty (snapshot_file ''2025-03-04'') = Inr []" by (simp add: load_csv_def)
  have s: "to_csv (sort_values [Some ''Alpha'']) = [Plain ''project_names'', Plain ''Alpha'']"
    by (simp add: sort_values_def to_csv_def write_field_def needs_quote_def)
  show ?thesis
    by (simp add: r run_def fetch_project_names_def l s send_email_files send_email_sessions)
qed

text \<open>
  C8, amended. When the resolved list of recipients is empty, no configuration check
  stops the run: after a successful fetch, load and save, today's snapshot is written,
  \<open>send_email\<close> opens an SMTP session for a message with zero recipients, nothing is
  delivered, and the run ends without an exception.
\<close>

theorem run_empty_recipients:
  "EMAIL_RECEIVER (environ e) = [] \<Longrightarrow> db e = Inr rows \<Longrightarrow>
   load_csv (files w) (snapshot_file (yesterday e)) = Inr old_df \<Longrightarrow> mkdir_ok e \<Longrightarrow> to_csv_ok e \<Longrightarrow>
   snd (run e ts w) = None \<and>
   files (fst (run e ts w)) (snapshot_file (today e)) = Some (to_csv (sort_values rows)) \<and>
   map rcpt (smtp_sessions (fst (run e ts w))) = map rcpt (smtp_sessions w) @ [[]] \<and>
   delivered (fst (run e ts w)) = delivered w"
  by (simp add: run_success send_email_files send_email_sessions send_email_no_rcpt)

theorem run_empty_recipients_witness:
  "EMAIL_RECEIVER [''EMAIL_RECEIVER'' \<mapsto> '' , ''] = [] \<and>
   snd (run \<lparr>environ = [''EMAIL_RECEIVER'' \<mapsto> '' , ''], today = ''2025-03-05'', yesterday = ''2025-03-04'',
       db = Inr [Some ''Alpha''], mkdir_ok = True, to_csv_ok = True, smtp_ok = True\<rparr>
       (\<lambda>d. []) \<lparr>files = Map.empty, smtp_sessions = [], delivered = []\<rparr>) = None \<and>
   map rcpt (smtp_sessions (fst (run \<lparr>environ = [''EMAIL_RECEIVER'' \<mapsto> '' , ''], today = ''2025-03-05'', yesterday = ''2025-03-04'',
       db = Inr [Some ''Alpha''], mkdir_ok = True, to_csv_ok = True, smtp_ok = True\<rparr>
       (\<lambda>d. []) \<lparr>files = Map.empty, smtp_sessions = [], delivered = []\<rparr>))) = [[]] \<and>
   delivered (fst (run \<lparr>environ = [''EMAIL_RECEIVER'' \<mapsto> '' , ''], today = ''2025-03-05'', yesterday = ''2025-03-04'',
       db = Inr [Some ''Alpha''], mkdir_ok = True, to_csv_ok = True, smtp_ok = True\<rparr>
       (\<lambda>d. []) \<lparr>files = Map.empty, smtp_sessions = [], delivered = []\<rparr>)) = []"
proof -
  have r: "EMAIL_RECEIVER [''EMAIL_RECEIVER'' \<mapsto> '' , ''] = []"
    by code_simp
  show ?thesis
    using r run_empty_recipients [of "\<lparr>environ = [''EMAIL_RECEIVER'' \<mapsto> '' , ''], today = ''2025-03-05'', yesterday = ''2025-03-04'',
       db = Inr [Some ''Alpha''], mkdir_ok = True, to_csv_ok = True, smtp_ok = True\<rparr>"
       "[Some ''Alpha'']" "\<lparr>files = Map.empty, smtp_sessions = [], delivered = []\<rparr>" "[]" "\<lambda>d. []"]
    by (simp add: load_csv_def)
qed

text \<open>
  C9. The scenario: today's fetch returns Gamma, alpha, Beta and yesterday's snapshot
  holds Alpha, Beta. The snapshot written for today is Beta, Gamma, alpha (ascending,
  original casing); the diff reports Gamma as added and nothing as removed; the body of
  the email states the total 3 and carries the table of the one addition.
\<close>

theorem run_scenario_one_addition:
  "files (fst (run \<lparr>environ = ev, today = t, yesterday = y,
       db = Inr [Some ''Gamma'', Some ''alpha'', Some ''Beta''], mkdir_ok = True, to_csv_ok = True, smtp_ok = ok\<rparr>
       ts \<lparr>files = fs(snapshot_file y \<mapsto> [Plain ''project_names'', Plain ''Alpha'', Plain ''Beta'']),
           smtp_sessions = [], delivered = []\<rparr>)) (snapshot_file t)
     = Some [Plain ''project_names'', Plain ''Beta'', Plain ''Gamma'', Plain ''alpha''] \<and>
   names_with Added (compare_csvs [Some ''Gamma'', Some ''alpha'', Some ''Beta''] [Some ''Alpha'', Some ''Beta''])
     = [Some ''Gamma''] \<and>
   names_with Removed (compare_csvs [Some ''Gamma'', Some ''alpha'', Some ''Beta''] [Some ''Alpha'', Some ''Beta''])
     = [] \<and>
   map body (smtp_sessions (fst (run \<lparr>environ = ev, today = t, yesterday = y,
       db = Inr [Some ''Gamma'', Some ''alpha'', Some ''Beta''], mkdir_ok = True, to_csv_ok = True, smtp_ok = ok\<rparr>
       ts \<lparr>files = fs(snapshot_file y \<mapsto> [Plain ''project_names'', Plain ''Alpha'', Plain ''Beta'']),
           smtp_sessions = [], delivered = []\<rparr>)))
     = [''Total FP projects today: 3'' @ [CHR 0x0A, CHR 0x0A] @ ''Changes in FP project names:'' @ [CHR 0x0A]
          @ ts [(Some ''Gamma'', Added)]]"
proof -
  let ?new = "[Some ''Gamma'', Some ''alpha'', Some ''Beta'']"
  let ?e = "\<lparr>environ = ev, today = t, yesterday = y, db = Inr ?new,
       mkdir_ok = True, to_csv_ok = True, smtp_ok = ok\<rparr>"
  let ?w = "\<lparr>files = fs(snapshot_file y \<mapsto> [Plain ''project_names'', Plain ''Alpha'', Plain ''Beta'']),
           smtp_sessions = [], delivered = []\<rparr>"
  have l: "load_csv (files ?w) (snapshot_file (yesterday ?e)) = Inr [Some ''Alpha'', Some ''Beta'']"
    by (simp add: load_csv_def read_csv_def blank_char_def na_filter_def na_values_def dropna_def)
  have d: "compare_csvs ?new [Some ''Alpha'', Some ''Beta''] = [(Some ''Gamma'', Added)]"
    by code_simp
  have s: "to_csv (sort_values ?new) = [Plain ''project_names'', Plain ''Beta'', Plain ''Gamma'', Plain ''alpha'']"
    by code_simp
  have n: "show_nat (Suc (Suc (Suc 0))) = ''3''" by code_simp
  have r: "run ?e ts ?w =
    (send_email ev t ok ts (Suc (Suc (Suc 0))) [(Some ''Gamma'', Added)]
       (?w \<lparr> files := (files ?w)(snapshot_file t \<mapsto> [Plain ''project_names'', Plain ''Beta'', Plain ''Gamma'', Plain ''alpha'']) \<rparr>), None)"
    using run_success [of ?e ?new ?w "[Some ''Alpha'', Some ''Beta'']" ts] l d s by simp
  show ?thesis
    unfolding r d by (simp add: send_email_files send_email_sessions email_body_def n names_with_def del: show_nat.simps)
qed



section \<open>The snapshot round trip\<close>

lemma sort_values_Some: "sort_values (map Some S) = map Some (sort S)"
  by (simp add: sort_values_def filter_map comp_def)

lemma storable_line: "storable s \<Longrightarrow> \<not> blank_line (write_field s) \<and> na_filter (field_text (write_field s)) = Some s"
  by (simp add: storable_def write_field_def na_filter_def)

lemma header_not_blank: "\<not> blank_line (Plain ''project_names'')"
  by (simp add: blank_char_def)

lemma read_back:
  assumes "list_all storable S"
  shows "read_csv (to_csv (map Some S)) = Inr (map Some S)"
proof -
  from assms have a: "\<And>s. s \<in> set S \<Longrightarrow> \<not> blank_line (write_field s)"
    and b: "\<And>s. s \<in> set S \<Longrightarrow> na_filter (field_text (write_field s)) = Some s"
    by (simp_all add: list_all_iff storable_line)
  have f: "filter (\<lambda>l. \<not> blank_line l) (map write_field S) = map write_field S"
    using a by (simp add: filter_id_conv)
  have m: "map (\<lambda>l. na_filter (field_text l)) (map write_field S) = map Some S"
    using b by simp
  show ?thesis
    using header_not_blank f m by (simp add: read_csv_def to_csv_def comp_def)
qed

lemma dropna_Some: "dropna (map Some S) = map Some S"
  by (simp add: dropna_def filter_map comp_def)

text \<open>
  C2. The snapshot saved from a set S should load as S. The script breaks this at a set
  that holds the name NA: the fetch keeps NA as a name and the save writes the bare line
  NA, but \<open>load_csv\<close>, which asks for strings with \<^verbatim>\<open>dtype=str\<close>, reads the line
  as missing and drops it. The snapshot of the one name NA loads as the empty frame, and
  against that baseline the next day's diff reports the unchanged name NA as added.
\<close>

theorem snapshot_round_trip_loses_NA:
  "load_csv (files (fst (run \<lparr>environ = Map.empty, today = ''2025-03-05'', yesterday = ''2025-03-04'',
       db = Inr [Some ''NA''], mkdir_ok = True, to_csv_ok = True, smtp_ok = True\<rparr>
       (\<lambda>d. []) \<lparr>files = Map.empty, smtp_sessions = [], delivered = []\<rparr>)))
     (snapshot_file ''2025-03-05'') = Inr [] \<and>
   compare_csvs [Some ''NA''] [] = [(Some ''NA'', Added)]"
proof -
  have l: "load_csv Map.empty (snapshot_file ''2025-03-04'') = Inr []" by (simp add: load_csv_def)
  have s: "sort_values [Some ''NA''] = [Some ''NA'']" by (simp add: sort_values_def)
  have r: "read_csv (to_csv [Some ''NA'']) = Inr [None]"
    by (simp add: read_csv_def to_csv_def write_field_def needs_quote_def blank_char_def na_filter_def na_values_def)
  have c: "compare_csvs [Some ''NA''] [] = [(Some ''NA'', Added)]" by (simp add: compare_csvs_def)
  show ?thesis
    by (simp add: run_def fetch_project_names_def l s send_email_files load_csv_def r dropna_def c)
qed

text \<open>
  Where the round trip does hold: for every list S of names, the empty list included,
  none of which is a missing-value marker or made of spaces and tabs only, loading
  today's snapshot after a run that fetched S returns the names of S in ascending order.
\<close>

lemma snapshot_round_trip:
  "db e = Inr (map Some S) \<Longrightarrow> load_csv (files w) (snapshot_file (yesterday e)) = Inr old_df \<Longrightarrow>
   mkdir_ok e \<Longrightarrow> to_csv_ok e \<Longrightarrow> list_all storable S \<Longrightarrow>
   load_csv (files (fst (run e ts w))) (snapshot_file (today e)) = Inr (map Some (sort S)) \<and>
   mset (map Some (sort S)) = mset (map Some S)"
proof -
  assume h: "db e = Inr (map Some S)" "load_csv (files w) (snapshot_file (yesterday e)) = Inr old_df"
    "mkdir_ok e" "to_csv_ok e" and st: "list_all storable S"
  from st have "list_all storable (sort S)" by (simp add: list_all_iff)
  then have "read_csv (to_csv (map Some (sort S))) = Inr (map Some (sort S))" by (rule read_back)
  then show ?thesis
    by (simp add: run_success [OF h] send_email_files sort_values_Some load_csv_def dropna_Some)
qed

lemma snapshot_round_trip_witness:
  "list_all storable [''Gamma'', ''alpha'', ''Beta''] \<and>
   load_csv (files (fst (run \<lparr>environ = Map.empty, today = ''2025-03-05'', yesterday = ''2025-03-04'',
       db = Inr [Some ''Gamma'', Some ''alpha'', Some ''Beta''], mkdir_ok = True, to_csv_ok = True, smtp_ok = True\<rparr>
       (\<lambda>d. []) \<lparr>files = Map.empty, smtp_sessions = [], delivered = []\<rparr>)))
     (snapshot_file ''2025-03-05'') = Inr [Some ''Beta'', Some ''Gamma'', Some ''alpha'']"
proof -
  have st: "list_all storable [''Gamma'', ''alpha'', ''Beta'']"
    by (simp add: storable_def na_values_def blank_char_def)
  have so: "sort [''Gamma'', ''alpha'', ''Beta''] = [''Beta'', ''Gamma'', ''alpha'']" by code_simp
  show ?thesis
    using st so snapshot_round_trip [of "\<lparr>environ = Map.empty, today = ''2025-03-05'', yesterday = ''2025-03-04'',
       db = Inr [Some ''Gamma'', Some ''alpha'', Some ''Beta''], mkdir_ok = True, to_csv_ok = True, smtp_ok = True\<rparr>"
       "[''Gamma'', ''alpha'', ''Beta'']" "\<lparr>files = Map.empty, smtp_sessions = [], delivered = []\<rparr>" "[]" "\<lambda>d. []"]
    by (simp add: load_csv_def)
qed

end
